theory Spec2Isabelle
  imports Main "HOL-Library.Multiset"
begin

section \<open>The record store of \<^verbatim>\<open>db.py\<close>\<close>

text \<open>
  \<^verbatim>\<open>db.py\<close> keeps three identically shaped SQLite tables, \<^verbatim>\<open>reserve\<close>,
  \<^verbatim>\<open>offering\<close> and \<^verbatim>\<open>deal\<close>, and offers CRUD operations and two stage
  transfers over them. Every function opens its own connection, runs its statements and
  closes the connection again, so the persisted database is threaded through the model
  explicitly: each operation takes the database it finds and returns its result together
  with the database it leaves behind. A raised exception is the \<open>Inl\<close> branch of the
  result.

  Modelling conventions.
  \<^item> A value bound to a statement or stored in a column is \<open>Null\<close>, an integer or a text.
    The REAL and BLOB storage classes and SQLite's column type affinity (which may
    re-represent a value when it is stored) are below the level of this model: a column
    holds the value it was given. That is exact for a value that is read from a table and
    stored again under the same column, as the transfers do, and for the values that
    \<open>kept\<close> describes below.
  \<^item> Row ids and integer values are Python's unbounded integers. The \<^verbatim>\<open>sqlite3\<close>
    module refuses to bind an integer outside signed 64 bits (\<^verbatim>\<open>OverflowError\<close>), and
    SQLite picks an unused rowid at random once the largest rowid is in use; the model has
    neither. It is exact for integers within signed 64 bits (\<open>int64\<close> below); statements
    that depend on the bound carry it as a hypothesis.
  \<^item> A column list that is spliced into a statement is a list of column names; a name
    outside the schema makes the statement fail.
  \<^item> The CRUD operations run against a storage engine that works; the two transfers,
    which have a handler for it, are also run against one that fails at a chosen
    statement.
  \<^item> What the transfers print is not part of the model.
\<close>

subsection \<open>Values, rows, tables\<close>

datatype val = Null | IntV int | TextV string

text \<open>The 25 columns of the schema of \<^verbatim>\<open>init_db\<close> besides \<^verbatim>\<open>id\<close>.\<close>

record row =
  name :: val
  region :: val
  mineral_type :: val
  area :: val
  quantity :: val
  recommendations :: val
  coordinates :: val
  transfer_conditions :: val
  announcement_date :: val
  annual_transfer_batch :: val
  proj_source :: val
  start_price :: val
  transaction_date :: val
  transaction_price :: val
  payable_price :: val
  success_bidder :: val
  contact_name :: val
  social_credit_code :: val
  contact_number :: val
  company_address :: val
  transfer_authority :: val
  contract_number :: val
  contract_signing_date :: val
  payment_deadline :: val
  actual_payment_date :: val

text \<open>
  A table is the list of its rows, each under its \<^verbatim>\<open>id\<close> (the INTEGER PRIMARY KEY,
  that is, the rowid), in the order in which they were inserted.
\<close>

type_synonym table = "(int \<times> row) list"

record db =
  reserve :: table
  offering :: table
  deal :: table


subsection \<open>Python values, dictionaries and exceptions\<close>

text \<open>A \<^verbatim>\<open>dict\<close> from column names to values.\<close>

type_synonym dict = "string \<rightharpoonup> val"

text \<open>
  The exceptions of the module. \<open>InvalidTable\<close>, \<open>NotFound\<close> and \<open>IntLiteralError\<close>
  are all \<^verbatim>\<open>ValueError\<close> in Python: the first two are raised by \<^verbatim>\<open>db.py\<close>
  itself (table check; \<^verbatim>\<open>fetchone()\<close> returned \<^verbatim>\<open>None\<close>), the third by
  \<^verbatim>\<open>int()\<close>. \<open>IntegrityError\<close> is \<^verbatim>\<open>sqlite3.IntegrityError\<close> (UNIQUE, NOT NULL,
  datatype mismatch), \<open>OperationalError\<close> is \<^verbatim>\<open>sqlite3.OperationalError\<close>.
\<close>

datatype error =
    InvalidTable
  | NotFound
  | KeyError
  | TypeError
  | IntLiteralError
  | IntegrityError
  | OperationalError

text \<open>\<^verbatim>\<open>data.get(col, None)\<close> and \<^verbatim>\<open>data[col]\<close>.\<close>

definition dict_get :: "dict \<Rightarrow> string \<Rightarrow> val" where
  "dict_get data col = (case data col of None \<Rightarrow> Null | Some v \<Rightarrow> v)"

definition dict_item :: "dict \<Rightarrow> string \<Rightarrow> error + val" where
  "dict_item data col = (case data col of None \<Rightarrow> Inl KeyError | Some v \<Rightarrow> Inr v)"

text \<open>
  The integer a text denotes: an optional sign followed by ASCII digits, the form in which
  the web forms of \<^verbatim>\<open>main.py\<close> hand over an id. On these spellings Python's
  \<^verbatim>\<open>int()\<close> and SQLite's conversion of a text bound to an INTEGER PRIMARY KEY agree.
  Every other text is taken to denote no integer; spellings that only one of the two
  accepts (surrounding blanks, \<^verbatim>\<open>1_0\<close>, \<^verbatim>\<open>5.0\<close>) are outside the model.
\<close>

definition digit :: "char \<Rightarrow> bool" where
  "digit c \<longleftrightarrow> c \<in> set ''0123456789''"

definition digit_value :: "char \<Rightarrow> nat" where
  "digit_value c = of_char c - 48"

definition decimal :: "string \<Rightarrow> nat option" where
  "decimal s =
     (if s \<noteq> [] \<and> list_all digit s
      then Some (foldl (\<lambda>n c. 10 * n + digit_value c) 0 s) else None)"

definition int_literal :: "string \<Rightarrow> int option" where
  "int_literal s =
     (case s of
        [] \<Rightarrow> None
      | c # cs \<Rightarrow>
          if c = CHR ''-'' then map_option (\<lambda>n. - int n) (decimal cs)
          else if c = CHR ''+'' then map_option int (decimal cs)
          else map_option int (decimal s))"

text \<open>\<^verbatim>\<open>int(v)\<close>.\<close>

fun py_int :: "val \<Rightarrow> error + int" where
  "py_int Null = Inl TypeError"
| "py_int (IntV n) = Inr n"
| "py_int (TextV s) = (case int_literal s of None \<Rightarrow> Inl IntLiteralError | Some n \<Rightarrow> Inr n)"

subsection \<open>The schema\<close>

definition ALL_COLUMNS :: "string list" where
  "ALL_COLUMNS =
     [''id'',
      ''name'', ''region'', ''mineral_type'',
      ''area'', ''quantity'', ''recommendations'',
      ''coordinates'', ''transfer_conditions'', ''announcement_date'',
      ''annual_transfer_batch'', ''proj_source'', ''start_price'',
      ''transaction_date'', ''transaction_price'', ''payable_price'',
      ''success_bidder'', ''contact_name'', ''social_credit_code'',
      ''contact_number'', ''company_address'', ''transfer_authority'',
      ''contract_number'', ''contract_signing_date'', ''payment_deadline'',
      ''actual_payment_date'']"

definition TABLES :: "string list" where
  "TABLES = [''reserve'', ''offering'', ''deal'']"

definition tbl :: "db \<Rightarrow> string \<Rightarrow> table" where
  "tbl d table =
     (if table = ''reserve'' then reserve d
      else if table = ''offering'' then offering d
      else deal d)"

definition set_tbl :: "db \<Rightarrow> string \<Rightarrow> table \<Rightarrow> db" where
  "set_tbl d table t =
     (if table = ''reserve'' then d\<lparr>reserve := t\<rparr>
      else if table = ''offering'' then d\<lparr>offering := t\<rparr>
      else d\<lparr>deal := t\<rparr>)"

text \<open>The value of a named column in a stored row, and a row built from named values.\<close>

definition field :: "row \<Rightarrow> string \<Rightarrow> val" where
  "field r c =
    (if c = ''name'' then name r
     else if c = ''region'' then region r
     else if c = ''mineral_type'' then mineral_type r
     else if c = ''area'' then area r
     else if c = ''quantity'' then quantity r
     else if c = ''recommendations'' then recommendations r
     else if c = ''coordinates'' then coordinates r
     else if c = ''transfer_conditions'' then transfer_conditions r
     else if c = ''announcement_date'' then announcement_date r
     else if c = ''annual_transfer_batch'' then annual_transfer_batch r
     else if c = ''proj_source'' then proj_source r
     else if c = ''start_price'' then start_price r
     else if c = ''transaction_date'' then transaction_date r
     else if c = ''transaction_price'' then transaction_price r
     else if c = ''payable_price'' then payable_price r
     else if c = ''success_bidder'' then success_bidder r
     else if c = ''contact_name'' then contact_name r
     else if c = ''social_credit_code'' then social_credit_code r
     else if c = ''contact_number'' then contact_number r
     else if c = ''company_address'' then company_address r
     else if c = ''transfer_authority'' then transfer_authority r
     else if c = ''contract_number'' then contract_number r
     else if c = ''contract_signing_date'' then contract_signing_date r
     else if c = ''payment_deadline'' then payment_deadline r
     else if c = ''actual_payment_date'' then actual_payment_date r
     else Null)"

definition column_value :: "int \<times> row \<Rightarrow> string \<Rightarrow> val" where
  "column_value kr c = (if c = ''id'' then IntV (fst kr) else field (snd kr) c)"

definition row_of :: "(string \<Rightarrow> val) \<Rightarrow> row" where
  "row_of f =
     \<lparr>name = f ''name'',
       region = f ''region'',
       mineral_type = f ''mineral_type'',
       area = f ''area'',
       quantity = f ''quantity'',
       recommendations = f ''recommendations'',
       coordinates = f ''coordinates'',
       transfer_conditions = f ''transfer_conditions'',
       announcement_date = f ''announcement_date'',
       annual_transfer_batch = f ''annual_transfer_batch'',
       proj_source = f ''proj_source'',
       start_price = f ''start_price'',
       transaction_date = f ''transaction_date'',
       transaction_price = f ''transaction_price'',
       payable_price = f ''payable_price'',
       success_bidder = f ''success_bidder'',
       contact_name = f ''contact_name'',
       social_credit_code = f ''social_credit_code'',
       contact_number = f ''contact_number'',
       company_address = f ''company_address'',
       transfer_authority = f ''transfer_authority'',
       contract_number = f ''contract_number'',
       contract_signing_date = f ''contract_signing_date'',
       payment_deadline = f ''payment_deadline'',
       actual_payment_date = f ''actual_payment_date''\<rparr>"


subsection \<open>SQL statements\<close>

text \<open>
  The id under which an INSERT stores a row: \<open>None\<close> when the bound value is NULL (SQLite
  then picks the rowid itself), the integer when the value is or denotes one, and a
  datatype mismatch otherwise. This is exact for integers of 64 bits and for the texts
  that spell one with an optional sign and digits.
\<close>

fun rowid_of :: "val \<Rightarrow> error + int option" where
  "rowid_of Null = Inr None"
| "rowid_of (IntV n) = Inr (Some n)"
| "rowid_of (TextV s) =
     (case int_literal s of None \<Rightarrow> Inl IntegrityError | Some n \<Rightarrow> Inr (Some n))"

text \<open>
  The rowid SQLite picks: one more than the largest in use, 1 in an empty table. (Once the
  largest rowid of 64 bits is in use SQLite picks an unused one at random; the general
  statements below about a new id only use that it is unused.)
\<close>

definition next_rowid :: "table \<Rightarrow> int" where
  "next_rowid t = (if t = [] then 1 else Max (set (map fst t)) + 1)"

definition known :: "string \<Rightarrow> string list \<Rightarrow> bool" where
  "known table cols \<longleftrightarrow>
     table \<in> set TABLES \<and> cols \<noteq> [] \<and> list_all (\<lambda>c. c \<in> set ALL_COLUMNS) cols"

text \<open>
  \<^verbatim>\<open>INSERT INTO table (cols) VALUES (vals)\<close>. Columns that are not listed are NULL. The
  statement fails, changing nothing, when the id is no integer, when \<^verbatim>\<open>name\<close> is NULL
  (NOT NULL) or when the id is in use (PRIMARY KEY). It yields \<^verbatim>\<open>lastrowid\<close>.
\<close>

definition sql_insert :: "string \<Rightarrow> string list \<Rightarrow> val list \<Rightarrow> db \<Rightarrow> error + int \<times> db" where
  "sql_insert table cols vals d =
     (if \<not> known table cols \<or> length cols \<noteq> length vals then Inl OperationalError
      else
        let given = map_of (zip cols vals);
            bound = (\<lambda>c. case given c of None \<Rightarrow> Null | Some v \<Rightarrow> v);
            r = row_of bound;
            t = tbl d table
        in case rowid_of (bound ''id'') of
             Inl e \<Rightarrow> Inl e
           | Inr k \<Rightarrow>
               let i = (case k of None \<Rightarrow> next_rowid t | Some n \<Rightarrow> n)
               in if name r = Null \<or> i \<in> set (map fst t) then Inl IntegrityError
                  else Inr (i, set_tbl d table (t @ [(i, r)])))"

text \<open>
  \<^verbatim>\<open>UPDATE table SET cols = vals WHERE id = ?\<close>, for columns other than \<^verbatim>\<open>id\<close>
  (the program never lists \<^verbatim>\<open>id\<close> in a SET clause). The constraint on \<^verbatim>\<open>name\<close>
  is checked on the rows that are updated. It yields \<^verbatim>\<open>rowcount\<close>.
\<close>

definition sql_update ::
  "string \<Rightarrow> string list \<Rightarrow> val list \<Rightarrow> int \<Rightarrow> db \<Rightarrow> error + int \<times> db" where
  "sql_update table cols vals i d =
     (if \<not> known table cols \<or> ''id'' \<in> set cols \<or> length cols \<noteq> length vals
      then Inl OperationalError
      else
        let given = map_of (zip cols vals);
            upd = (\<lambda>r. row_of (\<lambda>c. case given c of None \<Rightarrow> field r c | Some v \<Rightarrow> v));
            t = tbl d table;
            hit = filter (\<lambda>kr. fst kr = i) t
        in if list_ex (\<lambda>kr. name (upd (snd kr)) = Null) hit then Inl IntegrityError
           else Inr (int (length hit),
                     set_tbl d table (map (\<lambda>kr. if fst kr = i then (fst kr, upd (snd kr)) else kr) t)))"

text \<open>\<^verbatim>\<open>DELETE FROM table WHERE id = ?\<close>, yielding \<^verbatim>\<open>rowcount\<close>.\<close>

definition sql_delete :: "string \<Rightarrow> int \<Rightarrow> db \<Rightarrow> error + int \<times> db" where
  "sql_delete table i d =
     (if table \<notin> set TABLES then Inl OperationalError
      else
        let t = tbl d table
        in Inr (int (length (filter (\<lambda>kr. fst kr = i) t)),
                set_tbl d table (filter (\<lambda>kr. fst kr \<noteq> i) t)))"

text \<open>\<^verbatim>\<open>SELECT cols FROM table WHERE id = ?\<close> followed by \<^verbatim>\<open>fetchone()\<close>.\<close>

definition sql_select_one ::
  "string \<Rightarrow> string list \<Rightarrow> int \<Rightarrow> db \<Rightarrow> error + val list option \<times> db" where
  "sql_select_one table cols i d =
     (if \<not> known table cols then Inl OperationalError
      else Inr (map_option (\<lambda>kr. map (column_value kr) cols)
                  (find (\<lambda>kr. fst kr = i) (tbl d table)), d))"

text \<open>\<^verbatim>\<open>SELECT cols FROM table ORDER BY id\<close> followed by \<^verbatim>\<open>fetchall()\<close>.\<close>

definition sql_select_all :: "string \<Rightarrow> string list \<Rightarrow> db \<Rightarrow> error + val list list \<times> db" where
  "sql_select_all table cols d =
     (if \<not> known table cols then Inl OperationalError
      else Inr (map (\<lambda>kr. map (column_value kr) cols) (sort_key fst (tbl d table)), d))"

subsection \<open>Connections and transactions\<close>

text \<open>
  A connection sees the committed database and works on a copy of it. \<^verbatim>\<open>commit()\<close>
  makes the copy the committed database, \<^verbatim>\<open>rollback()\<close> discards it, and
  \<^verbatim>\<open>close()\<close> leaves the committed database behind, dropping what was not committed.
\<close>

record conn =
  committed :: db
  working :: db

definition get_conn :: "db \<Rightarrow> conn" where
  "get_conn d = \<lparr>committed = d, working = d\<rparr>"

definition commit :: "conn \<Rightarrow> conn" where
  "commit c = c\<lparr>committed := working c\<rparr>"

definition rollback :: "conn \<Rightarrow> conn" where
  "rollback c = c\<lparr>working := committed c\<rparr>"

definition close :: "conn \<Rightarrow> db" where
  "close c = committed c"

text \<open>
  The statements of a transfer. A \<open>fault\<close> names the statement, if any, at which the
  storage engine fails (disk full, I/O error, lock): that call raises
  \<^verbatim>\<open>sqlite3.OperationalError\<close> without effect. These failures are what the
  \<^verbatim>\<open>except Exception\<close> handler of the transfers is there for.
\<close>

datatype stmt = Begin | Select | Insert | Update | Delete | Commit

type_synonym fault = "stmt option"

text \<open>\<^verbatim>\<open>cur.execute(...)\<close>: the result, and the connection after the call.\<close>

definition execute ::
  "fault \<Rightarrow> stmt \<Rightarrow> (db \<Rightarrow> error + 'a \<times> db) \<Rightarrow> conn \<Rightarrow> (error + 'a) \<times> conn" where
  "execute f s run c =
     (if f = Some s then (Inl OperationalError, c)
      else case run (working c) of
             Inl e \<Rightarrow> (Inl e, c)
           | Inr (a, w) \<Rightarrow> (Inr a, c\<lparr>working := w\<rparr>))"

subsection \<open>The operations of \<^verbatim>\<open>db.py\<close>\<close>

text \<open>
  \<^verbatim>\<open>init_db\<close>: CREATE TABLE IF NOT EXISTS for the three tables. \<open>None\<close> is a database
  file without tables.
\<close>

definition init_db :: "db option \<Rightarrow> db" where
  "init_db file =
     (case file of None \<Rightarrow> \<lparr>reserve = [], offering = [], deal = []\<rparr> | Some d \<Rightarrow> d)"

definition get_record ::
  "db \<Rightarrow> string \<Rightarrow> int \<Rightarrow> string list option \<Rightarrow> (error + (string \<times> val) list) \<times> db" where
  "get_record d table id' cols =
     (if table \<notin> {''reserve'', ''offering'', ''deal''} then (Inl InvalidTable, d)
      else
        let cols = (case cols of None \<Rightarrow> ALL_COLUMNS | Some [] \<Rightarrow> ALL_COLUMNS | Some cs \<Rightarrow> cs);
            conn = get_conn d
        in case execute None Select (sql_select_one table cols id') conn of
             (Inl e, conn) \<Rightarrow> (Inl e, close conn)
           | (Inr None, conn) \<Rightarrow> (Inl NotFound, close conn)
           | (Inr (Some row), conn) \<Rightarrow> (Inr (zip cols row), close conn))"

definition add_full_record :: "db \<Rightarrow> string \<Rightarrow> dict \<Rightarrow> (error + int) \<times> db" where
  "add_full_record d table data =
     (if table \<notin> {''reserve'', ''offering'', ''deal''} then (Inl InvalidTable, d)
      else
        let row_values = map (dict_get data) ALL_COLUMNS;
            conn = get_conn d
        in case execute None Insert (sql_insert table ALL_COLUMNS row_values) conn of
             (Inl e, conn) \<Rightarrow> (Inl e, close conn)
           | (Inr _, conn) \<Rightarrow>
               (let conn = commit conn
                in (case dict_item data ''id'' of
                      Inl e \<Rightarrow> (Inl e, close conn)
                    | Inr v \<Rightarrow>
                        (case py_int v of
                           Inl e \<Rightarrow> (Inl e, close conn)
                         | Inr n \<Rightarrow> (Inr n, close conn)))))"

definition ALLOWED_TABLES :: "string set" where
  "ALLOWED_TABLES = {''reserve'', ''offering'', ''deal''}"

definition add_record :: "db \<Rightarrow> string \<Rightarrow> int \<Rightarrow> val \<Rightarrow> val \<Rightarrow> (error + int) \<times> db" where
  "add_record d table id' name' quantity' =
     (if table \<notin> ALLOWED_TABLES then (Inl InvalidTable, d)
      else
        let conn = get_conn d
        in case execute None Insert
                  (sql_insert table [''id'', ''name'', ''quantity''] [IntV id', name', quantity']) conn of
             (Inl e, conn) \<Rightarrow> (Inl e, close conn)
           | (Inr _, conn) \<Rightarrow> (Inr id', close (commit conn)))"

definition update_full_record :: "db \<Rightarrow> string \<Rightarrow> int \<Rightarrow> dict \<Rightarrow> (error + int) \<times> db" where
  "update_full_record d table id' data =
     (if table \<notin> {''reserve'', ''offering'', ''deal''} then (Inl InvalidTable, d)
      else
        let cols_to_update = filter (\<lambda>c. c \<noteq> ''id'') ALL_COLUMNS;
            values = map (dict_get data) cols_to_update;
            conn = get_conn d
        in case execute None Update (sql_update table cols_to_update values id') conn of
             (Inl e, conn) \<Rightarrow> (Inl e, close conn)
           | (Inr rowcount, conn) \<Rightarrow> (Inr rowcount, close (commit conn)))"

definition delete_record :: "db \<Rightarrow> string \<Rightarrow> int \<Rightarrow> (error + int) \<times> db" where
  "delete_record d table id' =
     (if table \<notin> {''reserve'', ''offering'', ''deal''} then (Inl InvalidTable, d)
      else
        let conn = get_conn d
        in case execute None Delete (sql_delete table id') conn of
             (Inl e, conn) \<Rightarrow> (Inl e, close conn)
           | (Inr rowcount, conn) \<Rightarrow> (Inr rowcount, close (commit conn)))"

text \<open>The column list that \<^verbatim>\<open>list_table\<close> uses when the caller gives none.\<close>

definition LIST_TABLE_DEFAULT :: "string list" where
  "LIST_TABLE_DEFAULT =
     [''id'', ''name'', ''region'', ''mineral_type'', ''area'', ''quantity'',
      ''recommendations'', ''coordinates'', ''transfer_conditions'', ''announcement_date'',
      ''annual_transfer_batch'', ''proj_source'', ''start_price'', ''transaction_date'',
      ''transaction_price'', ''payable_price'', ''success_bidder'', ''contact_name'',
      ''social_credit_code'', ''contact_number'', ''company_address'', ''transfer_authority'',
      ''contract_number'', ''contract_signing_date'', ''payment_deadline'',
      ''actual_payment_date'']"

definition list_table ::
  "db \<Rightarrow> string \<Rightarrow> string list option \<Rightarrow> (error + val list list) \<times> db" where
  "list_table d table cols =
     (if table \<notin> {''reserve'', ''offering'', ''deal''} then (Inl InvalidTable, d)
      else
        let cols = (case cols of None \<Rightarrow> LIST_TABLE_DEFAULT | Some cs \<Rightarrow> cs);
            conn = get_conn d
        in case execute None Select (sql_select_all table cols) conn of
             (Inl e, conn) \<Rightarrow> (Inl e, close conn)
           | (Inr rows, conn) \<Rightarrow> (Inr rows, close conn))"

text \<open>
  The column list of the transfers. Both functions spell it out twice, in the SELECT and
  in the INSERT, and the four lists are the same 25 names in the same order.
\<close>

definition TRANSFER_COLUMNS :: "string list" where
  "TRANSFER_COLUMNS =
     [''name'', ''region'', ''mineral_type'',
      ''area'', ''quantity'', ''recommendations'',
      ''coordinates'', ''transfer_conditions'', ''announcement_date'',
      ''annual_transfer_batch'', ''proj_source'', ''start_price'',
      ''transaction_date'', ''transaction_price'', ''payable_price'',
      ''success_bidder'', ''contact_name'', ''social_credit_code'',
      ''contact_number'', ''company_address'', ''transfer_authority'',
      ''contract_number'', ''contract_signing_date'', ''payment_deadline'',
      ''actual_payment_date'']"

text \<open>
  The \<^verbatim>\<open>try\<close> block of \<^verbatim>\<open>move_reserve_to_offering\<close>: its result, and the
  connection as the block leaves it. When no row is found the block rolls back itself
  before it raises.
\<close>

definition reserve_to_offering_try :: "fault \<Rightarrow> conn \<Rightarrow> int \<Rightarrow> (error + int) \<times> conn" where
  "reserve_to_offering_try f conn reserve_id =
     (case execute f Begin (\<lambda>w. Inr ((), w)) conn of
        (Inl e, conn) \<Rightarrow> (Inl e, conn)
      | (Inr _, conn) \<Rightarrow>
     (case execute f Select (sql_select_one ''reserve'' TRANSFER_COLUMNS reserve_id) conn of
        (Inl e, conn) \<Rightarrow> (Inl e, conn)
      | (Inr None, conn) \<Rightarrow> (Inl NotFound, rollback conn)
      | (Inr (Some row), conn) \<Rightarrow>
     (case execute f Insert (sql_insert ''offering'' TRANSFER_COLUMNS row) conn of
        (Inl e, conn) \<Rightarrow> (Inl e, conn)
      | (Inr new_offering_id, conn) \<Rightarrow>
     (case execute f Delete (sql_delete ''reserve'' reserve_id) conn of
        (Inl e, conn) \<Rightarrow> (Inl e, conn)
      | (Inr _, conn) \<Rightarrow>
     (if f = Some Commit then (Inl OperationalError, conn)
      else (Inr new_offering_id, commit conn))))))"

text \<open>The handlers: \<^verbatim>\<open>except Exception\<close> rolls back and re-raises, \<^verbatim>\<open>finally\<close> closes.\<close>

definition move_reserve_to_offering :: "fault \<Rightarrow> db \<Rightarrow> int \<Rightarrow> (error + int) \<times> db" where
  "move_reserve_to_offering f d reserve_id =
     (case reserve_to_offering_try f (get_conn d) reserve_id of
        (Inl e, conn) \<Rightarrow> (Inl e, close (rollback conn))
      | (Inr new_offering_id, conn) \<Rightarrow> (Inr new_offering_id, close conn))"

definition offering_to_deal_try :: "fault \<Rightarrow> conn \<Rightarrow> int \<Rightarrow> (error + int) \<times> conn" where
  "offering_to_deal_try f conn offering_id =
     (case execute f Begin (\<lambda>w. Inr ((), w)) conn of
        (Inl e, conn) \<Rightarrow> (Inl e, conn)
      | (Inr _, conn) \<Rightarrow>
     (case execute f Select (sql_select_one ''offering'' TRANSFER_COLUMNS offering_id) conn of
        (Inl e, conn) \<Rightarrow> (Inl e, conn)
      | (Inr None, conn) \<Rightarrow> (Inl NotFound, rollback conn)
      | (Inr (Some row), conn) \<Rightarrow>
     (case execute f Insert (sql_insert ''deal'' TRANSFER_COLUMNS row) conn of
        (Inl e, conn) \<Rightarrow> (Inl e, conn)
      | (Inr new_deal_id, conn) \<Rightarrow>
     (case execute f Delete (sql_delete ''offering'' offering_id) conn of
        (Inl e, conn) \<Rightarrow> (Inl e, conn)
      | (Inr _, conn) \<Rightarrow>
     (if f = Some Commit then (Inl OperationalError, conn)
      else (Inr new_deal_id, commit conn))))))"

definition move_offering_to_deal :: "fault \<Rightarrow> db \<Rightarrow> int \<Rightarrow> (error + int) \<times> db" where
  "move_offering_to_deal f d offering_id =
     (case offering_to_deal_try f (get_conn d) offering_id of
        (Inl e, conn) \<Rightarrow> (Inl e, close (rollback conn))
      | (Inr new_deal_id, conn) \<Rightarrow> (Inr new_deal_id, close conn))"


subsection \<open>Sequences of calls\<close>

text \<open>
  A call of one of the eight operations with its arguments; \<open>run\<close> performs a sequence of
  calls on a database freshly created by \<^verbatim>\<open>init_db\<close>. The states that \<open>run\<close>
  reaches are the states of the store.
\<close>

datatype call =
    GetRecord string int "string list option"
  | AddFullRecord string dict
  | AddRecord string int val val
  | UpdateFullRecord string int dict
  | DeleteRecord string int
  | ListTable string "string list option"
  | MoveReserveToOffering fault int
  | MoveOfferingToDeal fault int

fun perform :: "db \<Rightarrow> call \<Rightarrow> db" where
  "perform d (GetRecord table i cols) = snd (get_record d table i cols)"
| "perform d (AddFullRecord table data) = snd (add_full_record d table data)"
| "perform d (AddRecord table i nm q) = snd (add_record d table i nm q)"
| "perform d (UpdateFullRecord table i data) = snd (update_full_record d table i data)"
| "perform d (DeleteRecord table i) = snd (delete_record d table i)"
| "perform d (ListTable table cols) = snd (list_table d table cols)"
| "perform d (MoveReserveToOffering f i) = snd (move_reserve_to_offering f d i)"
| "perform d (MoveOfferingToDeal f i) = snd (move_offering_to_deal f d i)"

definition run :: "call list \<Rightarrow> db" where
  "run calls = foldl perform (init_db None) calls"

text \<open>The ids in use in a table, and the two constraints of the schema as predicates.\<close>

definition ids :: "table \<Rightarrow> int set" where
  "ids t = set (map fst t)"

definition names_not_null :: "db \<Rightarrow> bool" where
  "names_not_null d \<longleftrightarrow>
     list_all (\<lambda>kr. name (snd kr) \<noteq> Null) (reserve d @ offering d @ deal d)"

definition ids_unique :: "db \<Rightarrow> bool" where
  "ids_unique d \<longleftrightarrow>
     distinct (map fst (reserve d)) \<and> distinct (map fst (offering d)) \<and> distinct (map fst (deal d))"

subsection \<open>Bindable integers and values that are stored as given\<close>

text \<open>
  The integers SQLite holds and the \<^verbatim>\<open>sqlite3\<close> module binds: signed 64 bits. A value
  can be bound when it is not an integer outside that range.
\<close>

definition int64 :: "int \<Rightarrow> bool" where
  "int64 n \<longleftrightarrow> - (2 ^ 63) \<le> n \<and> n < 2 ^ 63"

fun bindable :: "val \<Rightarrow> bool" where
  "bindable Null = True"
| "bindable (IntV n) = int64 n"
| "bindable (TextV s) = True"

definition bindable_on :: "string list \<Rightarrow> dict \<Rightarrow> bool" where
  "bindable_on cols data \<longleftrightarrow> list_all (\<lambda>c. bindable (dict_get data c)) cols"

text \<open>
  The declared types of the schema of \<^verbatim>\<open>init_db\<close>: TEXT and VARCHAR columns (TEXT
  affinity), REAL columns, DATE columns (NUMERIC affinity).
\<close>

definition TEXT_COLUMNS :: "string list" where
  "TEXT_COLUMNS =
     [''name'', ''region'', ''mineral_type'', ''quantity'', ''recommendations'',
      ''coordinates'', ''transfer_conditions'', ''annual_transfer_batch'', ''proj_source'',
      ''success_bidder'', ''contact_name'', ''social_credit_code'', ''contact_number'',
      ''company_address'', ''transfer_authority'', ''contract_number'']"

definition REAL_COLUMNS :: "string list" where
  "REAL_COLUMNS = [''area'', ''start_price'', ''transaction_price'', ''payable_price'']"

definition DATE_COLUMNS :: "string list" where
  "DATE_COLUMNS =
     [''announcement_date'', ''transaction_date'', ''contract_signing_date'',
      ''payment_deadline'', ''actual_payment_date'']"

text \<open>
  A value that the column stores exactly as it is given: NULL anywhere; a text in a TEXT
  column, and in a REAL or DATE column when it has no digit (so that it cannot be read as
  a number); an integer of 64 bits in a DATE column. Other values are re-represented by
  the column's affinity (an integer in a TEXT column becomes a text, in a REAL column a
  real; a text that spells a number becomes that number in a REAL or DATE column).
\<close>

definition digitless :: "string \<Rightarrow> bool" where
  "digitless s \<longleftrightarrow> \<not> list_ex digit s"

fun kept :: "string \<Rightarrow> val \<Rightarrow> bool" where
  "kept c Null = True"
| "kept c (IntV n) = (c \<in> set DATE_COLUMNS \<and> int64 n)"
| "kept c (TextV s) = (c \<in> set TEXT_COLUMNS \<or> digitless s)"

definition kept_all :: "dict \<Rightarrow> bool" where
  "kept_all data \<longleftrightarrow> list_all (\<lambda>c. kept c (dict_get data c)) TRANSFER_COLUMNS"

subsection \<open>Example data\<close>

text \<open>
  The record \<^verbatim>\<open>{name: "Site A", mineral_type: "copper"}\<close>, a database that holds it
  under id 1 in \<^verbatim>\<open>reserve\<close> only, and a database that holds it under id 1 in all
  three tables.
\<close>

definition site_a :: row where
  "site_a = row_of ((\<lambda>c. Null)(''name'' := TextV ''Site A'', ''mineral_type'' := TextV ''copper''))"

definition example_db :: db where
  "example_db = \<lparr>reserve = [(1, site_a)], offering = [], deal = []\<rparr>"

definition crowded_db :: db where
  "crowded_db = \<lparr>reserve = [(1, site_a)], offering = [(1, site_a)], deal = [(1, site_a)]\<rparr>"

text \<open>
  A sequence of calls on a fresh database: an insert, an insert and an update without a
  name (both rejected), and a transfer.
\<close>

definition example_calls :: "call list" where
  "example_calls =
     [AddRecord ''reserve'' 1 (TextV ''Site A'') Null,
      AddFullRecord ''reserve'' [''id'' \<mapsto> IntV 2],
      UpdateFullRecord ''reserve'' 1 Map.empty,
      MoveReserveToOffering None 1]"


section \<open>Facts about the statements\<close>

subsection \<open>Tables and column lists\<close>

lemma valid_table:
  "table \<in> set TABLES \<Longrightarrow> (table \<notin> {''reserve'', ''offering'', ''deal''}) = False"
  "table \<in> set TABLES \<Longrightarrow> (table \<notin> ALLOWED_TABLES) = False"
  by (simp_all add: TABLES_def ALLOWED_TABLES_def)

lemma invalid_table:
  "table \<notin> set TABLES \<Longrightarrow> (table \<notin> {''reserve'', ''offering'', ''deal''}) = True"
  "table \<notin> set TABLES \<Longrightarrow> (table \<notin> ALLOWED_TABLES) = True"
  by (simp_all add: TABLES_def ALLOWED_TABLES_def)

lemma tables_mem:
  "''reserve'' \<in> set TABLES" "''offering'' \<in> set TABLES" "''deal'' \<in> set TABLES"
  by (simp_all add: TABLES_def)

lemma tbl_simps:
  "tbl d ''reserve'' = reserve d" "tbl d ''offering'' = offering d" "tbl d ''deal'' = deal d"
  by (simp_all add: tbl_def)

lemma set_tbl_simps:
  "set_tbl d ''reserve'' t = d\<lparr>reserve := t\<rparr>"
  "set_tbl d ''offering'' t = d\<lparr>offering := t\<rparr>"
  "set_tbl d ''deal'' t = d\<lparr>deal := t\<rparr>"
  by (simp_all add: set_tbl_def)

lemma set_tbl_same: "set_tbl d table (tbl d table) = d"
  by (simp add: set_tbl_def tbl_def)

lemma tbl_set_tbl: "table \<in> set TABLES \<Longrightarrow> tbl (set_tbl d table t) table = t"
  by (auto simp: set_tbl_def tbl_def TABLES_def)

lemma tbl_set_tbl_other:
  "table \<in> set TABLES \<Longrightarrow> other \<in> set TABLES \<Longrightarrow> other \<noteq> table \<Longrightarrow>
     tbl (set_tbl d table t) other = tbl d other"
  by (auto simp: set_tbl_def tbl_def TABLES_def)

lemma known_all: "table \<in> set TABLES \<Longrightarrow> known table ALL_COLUMNS"
  by (simp add: known_def ALL_COLUMNS_def)

lemma known_transfer: "table \<in> set TABLES \<Longrightarrow> known table TRANSFER_COLUMNS"
  by (simp add: known_def TRANSFER_COLUMNS_def ALL_COLUMNS_def)

lemma known_basic: "table \<in> set TABLES \<Longrightarrow> known table [''id'', ''name'', ''quantity'']"
  by (simp add: known_def ALL_COLUMNS_def)

lemma in_all_columns: "''id'' \<in> set ALL_COLUMNS" "''name'' \<in> set ALL_COLUMNS"
  by (simp_all add: ALL_COLUMNS_def)

lemma id_notin_transfer: "''id'' \<notin> set TRANSFER_COLUMNS"
  by (simp add: TRANSFER_COLUMNS_def)

lemma cols_to_update: "filter (\<lambda>c. c \<noteq> ''id'') ALL_COLUMNS = TRANSFER_COLUMNS"
  by (simp add: ALL_COLUMNS_def TRANSFER_COLUMNS_def)

subsection \<open>Rows built from bound values\<close>

lemma bound_zip_map:
  "(case map_of (zip cols (map g cols)) c of None \<Rightarrow> Null | Some v \<Rightarrow> v) =
     (if c \<in> set cols then g c else Null)"
  by (simp add: map_of_zip_map)

lemma set_zip_map:
  "(case map_of (zip cols (map g cols)) c of None \<Rightarrow> h c | Some v \<Rightarrow> v) =
     (if c \<in> set cols then g c else h c)"
  by (simp add: map_of_zip_map)

lemma name_row_of: "name (row_of g) = g ''name''"
  by (simp add: row_of_def)

text \<open>
  Reading the 25 transfer columns of a row and storing them under the same column list
  gives the row back: the SELECT list and the INSERT list agree name by name.
\<close>

lemma row_of_transfer:
  "row_of (\<lambda>c. if c \<in> set TRANSFER_COLUMNS then column_value (k, r) c else Null) = r"
  by (simp add: row_of_def TRANSFER_COLUMNS_def column_value_def field_def)

lemma row_of_all:
  "row_of (\<lambda>c. if c \<in> set ALL_COLUMNS then g c else Null) = row_of g"
  by (simp add: row_of_def ALL_COLUMNS_def)

lemma row_of_update:
  "row_of (\<lambda>c. case map_of (zip TRANSFER_COLUMNS (map g TRANSFER_COLUMNS)) c of
                 None \<Rightarrow> h c | Some v \<Rightarrow> v) = row_of g"
  by (simp add: set_zip_map row_of_def TRANSFER_COLUMNS_def)


subsection \<open>Row ids\<close>

lemma next_rowid_fresh: "next_rowid t \<notin> set (map fst t)"
proof (cases "t = []")
  case True
  then show ?thesis by simp
next
  case False
  have "k \<le> Max (set (map fst t))" if "k \<in> set (map fst t)" for k
    using that by (intro Max_ge) simp_all
  then show ?thesis
    using False by (fastforce simp: next_rowid_def)
qed


lemma filter_absent:
  "i \<notin> set (map fst t) \<Longrightarrow> filter (\<lambda>kr. fst kr = i) t = []"
  "i \<notin> set (map fst t) \<Longrightarrow> filter (\<lambda>kr. fst kr \<noteq> i) t = t"
  by (induction t) auto

lemma map_absent:
  "i \<notin> set (map fst t) \<Longrightarrow> map (\<lambda>kr. if fst kr = i then (fst kr, r) else kr) t = t"
  by (induction t) auto

lemma find_map_of: "map_option snd (find (\<lambda>kr. fst kr = i) t) = map_of t i"
  by (induction t) auto

lemma find_None_iff: "find (\<lambda>kr. fst kr = i) t = None \<longleftrightarrow> i \<notin> set (map fst t)"
  by (induction t) auto

subsection \<open>What each statement does on the column lists of the program\<close>

lemma select_transfer:
  assumes "table \<in> set TABLES"
  shows "sql_select_one table TRANSFER_COLUMNS i d =
     Inr (map_option (\<lambda>kr. map (column_value kr) TRANSFER_COLUMNS)
            (find (\<lambda>kr. fst kr = i) (tbl d table)), d)"
  using assms by (simp add: sql_select_one_def known_transfer)

lemma insert_transfer:
  assumes "table \<in> set TABLES"
  shows "sql_insert table TRANSFER_COLUMNS (map (column_value (k, r)) TRANSFER_COLUMNS) d =
     (if name r = Null then Inl IntegrityError
      else Inr (next_rowid (tbl d table),
                set_tbl d table (tbl d table @ [(next_rowid (tbl d table), r)])))"
  using next_rowid_fresh [of "tbl d table"]
  by (simp add: sql_insert_def bound_zip_map known_transfer [OF assms] row_of_transfer
        id_notin_transfer Let_def)

lemma insert_all:
  assumes "table \<in> set TABLES"
  shows "sql_insert table ALL_COLUMNS (map (dict_get data) ALL_COLUMNS) d =
     (case rowid_of (dict_get data ''id'') of
        Inl e \<Rightarrow> Inl e
      | Inr k \<Rightarrow>
          let i = (case k of None \<Rightarrow> next_rowid (tbl d table) | Some n \<Rightarrow> n)
          in if dict_get data ''name'' = Null \<or> i \<in> set (map fst (tbl d table))
             then Inl IntegrityError
             else Inr (i, set_tbl d table (tbl d table @ [(i, row_of (dict_get data))])))"
  using assms
  by (simp add: sql_insert_def bound_zip_map known_all row_of_all in_all_columns Let_def
        name_row_of cong: sum.case_cong if_cong)

lemma update_transfer:
  assumes "table \<in> set TABLES"
  shows "sql_update table TRANSFER_COLUMNS (map g TRANSFER_COLUMNS) i d =
     (if g ''name'' = Null \<and> i \<in> set (map fst (tbl d table)) then Inl IntegrityError
      else Inr (int (length (filter (\<lambda>kr. fst kr = i) (tbl d table))),
                set_tbl d table
                  (map (\<lambda>kr. if fst kr = i then (fst kr, row_of g) else kr) (tbl d table))))"
proof -
  have ex: "list_ex (\<lambda>kr. g ''name'' = Null) (filter (\<lambda>kr. fst kr = i) t)
      \<longleftrightarrow> g ''name'' = Null \<and> i \<in> set (map fst t)" for t :: table
    by (force simp: list_ex_iff)
  have "sql_update table TRANSFER_COLUMNS (map g TRANSFER_COLUMNS) i d =
     (if list_ex (\<lambda>kr. name (row_of g) = Null) (filter (\<lambda>kr. fst kr = i) (tbl d table))
      then Inl IntegrityError
      else Inr (int (length (filter (\<lambda>kr. fst kr = i) (tbl d table))),
                set_tbl d table
                  (map (\<lambda>kr. if fst kr = i then (fst kr, row_of g) else kr) (tbl d table))))"
    unfolding sql_update_def Let_def row_of_update
    by (simp add: known_transfer [OF assms] id_notin_transfer)
  then show ?thesis
    by (simp add: name_row_of ex)
qed


section \<open>What the operations compute\<close>

subsection \<open>The transfers\<close>

lemma move_reserve_to_offering_eq:
  "move_reserve_to_offering f d i =
     (if f = Some Begin \<or> f = Some Select then (Inl OperationalError, d)
      else case find (\<lambda>kr. fst kr = i) (reserve d) of
             None \<Rightarrow> (Inl NotFound, d)
           | Some kr \<Rightarrow>
               if f = Some Insert then (Inl OperationalError, d)
               else if name (snd kr) = Null then (Inl IntegrityError, d)
               else if f = Some Delete \<or> f = Some Commit then (Inl OperationalError, d)
               else (Inr (next_rowid (offering d)),
                     \<lparr>reserve = filter (\<lambda>kr. fst kr \<noteq> i) (reserve d),
                      offering = offering d @ [(next_rowid (offering d), snd kr)],
                      deal = deal d\<rparr>))"
  by (cases "find (\<lambda>kr. fst kr = i) (reserve d)")
     (auto simp: move_reserve_to_offering_def reserve_to_offering_try_def execute_def
        select_transfer insert_transfer tables_mem sql_delete_def get_conn_def rollback_def
        commit_def close_def tbl_def set_tbl_def Let_def)

lemma move_offering_to_deal_eq:
  "move_offering_to_deal f d i =
     (if f = Some Begin \<or> f = Some Select then (Inl OperationalError, d)
      else case find (\<lambda>kr. fst kr = i) (offering d) of
             None \<Rightarrow> (Inl NotFound, d)
           | Some kr \<Rightarrow>
               if f = Some Insert then (Inl OperationalError, d)
               else if name (snd kr) = Null then (Inl IntegrityError, d)
               else if f = Some Delete \<or> f = Some Commit then (Inl OperationalError, d)
               else (Inr (next_rowid (deal d)),
                     \<lparr>reserve = reserve d,
                      offering = filter (\<lambda>kr. fst kr \<noteq> i) (offering d),
                      deal = deal d @ [(next_rowid (deal d), snd kr)]\<rparr>))"
  by (cases "find (\<lambda>kr. fst kr = i) (offering d)")
     (auto simp: move_offering_to_deal_def offering_to_deal_try_def execute_def
        select_transfer insert_transfer tables_mem sql_delete_def get_conn_def rollback_def
        commit_def close_def tbl_def set_tbl_def Let_def)

lemma find_Some_map_of:
  "find (\<lambda>kr. fst kr = i) t = Some kr \<Longrightarrow> map_of t i = Some (snd kr)"
  using find_map_of [of i t] by simp

lemma map_of_find:
  "map_of t i = Some r \<Longrightarrow> \<exists>kr. find (\<lambda>kr. fst kr = i) t = Some kr \<and> snd kr = r"
  using find_map_of [of i t] by (cases "find (\<lambda>kr. fst kr = i) t") auto

lemma example_rows:
  "name site_a = TextV ''Site A''" "mineral_type site_a = TextV ''copper''"
  by (simp_all add: site_a_def row_of_def)


subsection \<open>The record store\<close>

lemma add_full_record_eq:
  assumes "table \<in> set TABLES"
  shows "add_full_record d table data =
     (case rowid_of (dict_get data ''id'') of
        Inl e \<Rightarrow> (Inl e, d)
      | Inr k \<Rightarrow>
          let i = (case k of None \<Rightarrow> next_rowid (tbl d table) | Some n \<Rightarrow> n)
          in if dict_get data ''name'' = Null \<or> i \<in> set (map fst (tbl d table))
             then (Inl IntegrityError, d)
             else (case dict_item data ''id'' of
                     Inl e \<Rightarrow> Inl e
                   | Inr v \<Rightarrow> py_int v,
                   set_tbl d table (tbl d table @ [(i, row_of (dict_get data))])))"
  unfolding add_full_record_def valid_table [OF assms] if_False
  by (simp add: execute_def insert_all [OF assms] get_conn_def
        commit_def close_def Let_def split: sum.splits option.splits)

lemma add_record_eq:
  assumes "table \<in> set TABLES"
  shows "add_record d table i nm q =
     (if nm = Null \<or> i \<in> set (map fst (tbl d table)) then (Inl IntegrityError, d)
      else (Inr i, set_tbl d table
                     (tbl d table @ [(i, row_of ((\<lambda>c. Null)(''name'' := nm, ''quantity'' := q)))])))"
  unfolding add_record_def valid_table [OF assms] if_False
  by (simp add: execute_def sql_insert_def known_basic [OF assms] get_conn_def commit_def close_def
        row_of_def Let_def)

lemma update_full_record_eq:
  assumes "table \<in> set TABLES"
  shows "update_full_record d table i data =
     (if dict_get data ''name'' = Null \<and> i \<in> set (map fst (tbl d table))
      then (Inl IntegrityError, d)
      else (Inr (int (length (filter (\<lambda>kr. fst kr = i) (tbl d table)))),
            set_tbl d table
              (map (\<lambda>kr. if fst kr = i then (fst kr, row_of (dict_get data)) else kr) (tbl d table))))"
  unfolding update_full_record_def valid_table [OF assms] if_False cols_to_update Let_def
    update_transfer [OF assms]
  by (simp add: execute_def get_conn_def commit_def close_def)

lemma delete_record_eq:
  assumes "table \<in> set TABLES"
  shows "delete_record d table i =
     (Inr (int (length (filter (\<lambda>kr. fst kr = i) (tbl d table)))),
      set_tbl d table (filter (\<lambda>kr. fst kr \<noteq> i) (tbl d table)))"
  unfolding delete_record_def valid_table [OF assms] if_False
  by (simp add: execute_def sql_delete_def assms get_conn_def commit_def close_def Let_def)

lemma list_table_eq:
  assumes "table \<in> set TABLES"
  shows "list_table d table cols =
     (let cs = (case cols of None \<Rightarrow> LIST_TABLE_DEFAULT | Some cs \<Rightarrow> cs)
      in if known table cs
         then (Inr (map (\<lambda>kr. map (column_value kr) cs) (sort_key fst (tbl d table))), d)
         else (Inl OperationalError, d))"
  unfolding list_table_def valid_table [OF assms] if_False
  by (simp add: execute_def sql_select_all_def get_conn_def close_def Let_def)

lemma get_record_db: "snd (get_record d table i cols) = d"
  by (simp add: get_record_def execute_def sql_select_one_def get_conn_def close_def Let_def
        split: option.splits list.splits prod.splits sum.splits)

lemma list_table_db: "snd (list_table d table cols) = d"
  by (simp add: list_table_def execute_def sql_select_all_def get_conn_def close_def Let_def
        split: option.splits list.splits prod.splits sum.splits)

lemma invalid_table_unchanged:
  assumes "table \<notin> set TABLES"
  shows "add_full_record d table data = (Inl InvalidTable, d)"
    "add_record d table i nm q = (Inl InvalidTable, d)"
    "update_full_record d table i data = (Inl InvalidTable, d)"
    "delete_record d table i = (Inl InvalidTable, d)"
    "list_table d table cols = (Inl InvalidTable, d)"
    "get_record d table i cols = (Inl InvalidTable, d)"
  unfolding add_full_record_def add_record_def update_full_record_def delete_record_def
    list_table_def get_record_def invalid_table [OF assms]
  by simp_all

subsection \<open>Examples\<close>

text \<open>Two transfers, evaluated.\<close>

lemma move_example:
  "move_reserve_to_offering None example_db 1 =
     (Inr 1, \<lparr>reserve = [], offering = [(1, site_a)], deal = []\<rparr>)"
  by (simp add: move_reserve_to_offering_eq example_db_def example_rows next_rowid_def)

lemma move_crowded:
  "move_reserve_to_offering None crowded_db 1 =
     (Inr 2, \<lparr>reserve = [], offering = [(1, site_a), (2, site_a)], deal = [(1, site_a)]\<rparr>)"
  "move_offering_to_deal None crowded_db 1 =
     (Inr 2, \<lparr>reserve = [(1, site_a)], offering = [], deal = [(1, site_a), (2, site_a)]\<rparr>)"
  by (simp_all add: move_reserve_to_offering_eq move_offering_to_deal_eq crowded_db_def
        example_rows next_rowid_def)

lemma run_example:
  "run example_calls =
     \<lparr>reserve = [],
      offering = [(1, row_of ((\<lambda>c. Null)(''name'' := TextV ''Site A'', ''quantity'' := Null)))],
      deal = []\<rparr>"
  by (simp add: run_def example_calls_def init_db_def add_record_eq add_full_record_eq
        update_full_record_eq move_reserve_to_offering_eq tables_mem tbl_simps set_tbl_simps
        dict_get_def name_row_of next_rowid_def)

section \<open>Invariants of the store\<close>

text \<open>
  Every operation keeps the two constraints of the schema: no row has a null name, and no
  table has two rows with one id. So both hold in every state that a sequence of calls
  reaches from a fresh database.
\<close>

lemma names_tbl:
  "table \<in> set TABLES \<Longrightarrow> names_not_null d \<Longrightarrow>
     list_all (\<lambda>kr. name (snd kr) \<noteq> Null) (tbl d table)"
  by (auto simp: names_not_null_def tbl_def TABLES_def)

lemma names_set_tbl:
  "table \<in> set TABLES \<Longrightarrow> names_not_null d \<Longrightarrow>
     list_all (\<lambda>kr. name (snd kr) \<noteq> Null) t \<Longrightarrow> names_not_null (set_tbl d table t)"
  by (auto simp: names_not_null_def set_tbl_def TABLES_def)

lemma unique_tbl:
  "table \<in> set TABLES \<Longrightarrow> ids_unique d \<Longrightarrow> distinct (map fst (tbl d table))"
  by (auto simp: ids_unique_def tbl_def TABLES_def)

lemma unique_set_tbl:
  "table \<in> set TABLES \<Longrightarrow> ids_unique d \<Longrightarrow> distinct (map fst t) \<Longrightarrow>
     ids_unique (set_tbl d table t)"
  by (auto simp: ids_unique_def set_tbl_def TABLES_def)

lemma map_fst_update:
  "map fst (map (\<lambda>kr. if fst kr = i then (fst kr, r) else kr) t) = map fst t"
  by (induction t) auto

lemma distinct_filter_ids: "distinct (map fst t) \<Longrightarrow> distinct (map fst (filter P t))"
  by (induction t) auto

lemma add_full_record_inv:
  assumes "names_not_null d" "ids_unique d"
  shows "names_not_null (snd (add_full_record d table data))"
    and "ids_unique (snd (add_full_record d table data))"
proof -
  show "names_not_null (snd (add_full_record d table data))"
  proof (cases "table \<in> set TABLES")
    case True
    with assms show ?thesis
      by (auto simp: add_full_record_eq Let_def name_row_of
            intro!: names_set_tbl dest: names_tbl split: sum.splits option.splits)
  next
    case False
    with assms show ?thesis by (simp add: invalid_table_unchanged)
  qed
  show "ids_unique (snd (add_full_record d table data))"
  proof (cases "table \<in> set TABLES")
    case True
    with assms show ?thesis
      by (auto simp: add_full_record_eq Let_def
            intro!: unique_set_tbl dest: unique_tbl split: sum.splits option.splits)
  next
    case False
    with assms show ?thesis by (simp add: invalid_table_unchanged)
  qed
qed

lemma add_record_inv:
  assumes "names_not_null d" "ids_unique d"
  shows "names_not_null (snd (add_record d table i nm q))"
    and "ids_unique (snd (add_record d table i nm q))"
proof -
  show "names_not_null (snd (add_record d table i nm q))"
  proof (cases "table \<in> set TABLES")
    case True
    with assms show ?thesis
      by (auto simp: add_record_eq name_row_of intro!: names_set_tbl dest: names_tbl)
  next
    case False
    with assms show ?thesis by (simp add: invalid_table_unchanged)
  qed
  show "ids_unique (snd (add_record d table i nm q))"
  proof (cases "table \<in> set TABLES")
    case True
    with assms show ?thesis
      by (auto simp: add_record_eq intro!: unique_set_tbl dest: unique_tbl)
  next
    case False
    with assms show ?thesis by (simp add: invalid_table_unchanged)
  qed
qed

lemma update_full_record_inv:
  assumes "names_not_null d" "ids_unique d"
  shows "names_not_null (snd (update_full_record d table i data))"
    and "ids_unique (snd (update_full_record d table i data))"
proof -
  show "names_not_null (snd (update_full_record d table i data))"
  proof (cases "table \<in> set TABLES")
    case True
    show ?thesis
    proof (cases "i \<in> set (map fst (tbl d table))")
      case False
      with True assms show ?thesis
        by (simp add: update_full_record_eq map_absent filter_absent set_tbl_same del: set_map)
    next
      case hit: True
      show ?thesis
      proof (cases "dict_get data ''name'' = Null")
        case True
        with hit \<open>table \<in> set TABLES\<close> assms show ?thesis
          by (simp add: update_full_record_eq del: set_map)
      next
        case False
        have "list_all (\<lambda>kr. name (snd kr) \<noteq> Null)
            (map (\<lambda>kr. if fst kr = i then (fst kr, row_of (dict_get data)) else kr) (tbl d table))"
          using names_tbl [OF True assms(1)] False
          by (auto simp: list_all_iff name_row_of)
        with True False assms show ?thesis
          by (simp add: update_full_record_eq names_set_tbl del: set_map)
      qed
    qed
  next
    case False
    with assms show ?thesis by (simp add: invalid_table_unchanged)
  qed
  show "ids_unique (snd (update_full_record d table i data))"
  proof (cases "table \<in> set TABLES")
    case True
    have "distinct (map fst
        (map (\<lambda>kr. if fst kr = i then (fst kr, row_of (dict_get data)) else kr) (tbl d table)))"
      using unique_tbl [OF True assms(2)] by (simp only: map_fst_update)
    then have "ids_unique (set_tbl d table
        (map (\<lambda>kr. if fst kr = i then (fst kr, row_of (dict_get data)) else kr) (tbl d table)))"
      by (rule unique_set_tbl [OF True assms(2)])
    with True assms show ?thesis
      by (simp add: update_full_record_eq del: set_map)
  next
    case False
    with assms show ?thesis by (simp add: invalid_table_unchanged)
  qed
qed

lemma delete_record_inv:
  assumes "names_not_null d" "ids_unique d"
  shows "names_not_null (snd (delete_record d table i))"
    and "ids_unique (snd (delete_record d table i))"
proof -
  show "names_not_null (snd (delete_record d table i))"
  proof (cases "table \<in> set TABLES")
    case True
    have "list_all (\<lambda>kr. name (snd kr) \<noteq> Null) (filter (\<lambda>kr. fst kr \<noteq> i) (tbl d table))"
      using names_tbl [OF True assms(1)] by (auto simp: list_all_iff)
    with True assms show ?thesis
      by (simp add: delete_record_eq names_set_tbl)
  next
    case False
    with assms show ?thesis by (simp add: invalid_table_unchanged)
  qed
  show "ids_unique (snd (delete_record d table i))"
  proof (cases "table \<in> set TABLES")
    case True
    with assms show ?thesis
      by (simp add: delete_record_eq unique_set_tbl unique_tbl distinct_filter_ids)
  next
    case False
    with assms show ?thesis by (simp add: invalid_table_unchanged)
  qed
qed

lemma find_in_set: "find P t = Some kr \<Longrightarrow> kr \<in> set t"
  by (induction t) (auto split: if_splits)

lemma next_rowid_fresh_img: "next_rowid t \<notin> fst ` set t"
  using next_rowid_fresh [of t] by simp

lemma move_reserve_to_offering_inv:
  assumes "names_not_null d" "ids_unique d"
  shows "names_not_null (snd (move_reserve_to_offering f d i))"
    and "ids_unique (snd (move_reserve_to_offering f d i))"
  using assms
  by (auto simp: move_reserve_to_offering_eq names_not_null_def ids_unique_def list_all_iff
        next_rowid_fresh_img distinct_filter_ids split: option.splits)

lemma move_offering_to_deal_inv:
  assumes "names_not_null d" "ids_unique d"
  shows "names_not_null (snd (move_offering_to_deal f d i))"
    and "ids_unique (snd (move_offering_to_deal f d i))"
  using assms
  by (auto simp: move_offering_to_deal_eq names_not_null_def ids_unique_def list_all_iff
        next_rowid_fresh_img distinct_filter_ids split: option.splits)

lemma perform_inv:
  assumes "names_not_null d \<and> ids_unique d"
  shows "names_not_null (perform d c) \<and> ids_unique (perform d c)"
  using assms
  by (cases c)
     (simp_all add: get_record_db list_table_db add_full_record_inv add_record_inv
        update_full_record_inv delete_record_inv move_reserve_to_offering_inv
        move_offering_to_deal_inv)

lemma foldl_perform_inv:
  "names_not_null d \<and> ids_unique d \<Longrightarrow>
     names_not_null (foldl perform d calls) \<and> ids_unique (foldl perform d calls)"
proof (induction calls arbitrary: d)
  case Nil
  then show ?case by simp
next
  case (Cons c calls)
  from Cons.prems have "names_not_null (perform d c) \<and> ids_unique (perform d c)"
    by (rule perform_inv)
  then show ?case
    using Cons.IH by simp
qed

lemma run_inv: "names_not_null (run calls) \<and> ids_unique (run calls)"
  unfolding run_def
  by (rule foldl_perform_inv) (simp add: init_db_def names_not_null_def ids_unique_def)

section \<open>Errors and the database\<close>

text \<open>
  An INSERT can only fail with \<^verbatim>\<open>sqlite3.IntegrityError\<close>. Every operation of the
  record store but \<^verbatim>\<open>add_full_record\<close> leaves the database as it was when it raises;
  \<^verbatim>\<open>add_full_record\<close> does so when the table check or the INSERT raises.
\<close>

lemma rowid_of_error: "rowid_of v = Inl e \<Longrightarrow> e = IntegrityError"
  by (cases v) (auto split: option.splits)

lemma errors_leave_database:
  "isl (fst (get_record d table i cols)) \<longrightarrow> snd (get_record d table i cols) = d"
  "isl (fst (list_table d table cols)) \<longrightarrow> snd (list_table d table cols) = d"
  "isl (fst (add_record d table i nm q)) \<longrightarrow> snd (add_record d table i nm q) = d"
  "isl (fst (update_full_record d table i data)) \<longrightarrow> snd (update_full_record d table i data) = d"
  "isl (fst (delete_record d table i)) \<longrightarrow> snd (delete_record d table i) = d"
  "fst (add_full_record d table data) \<in> {Inl InvalidTable, Inl IntegrityError, Inl OperationalError}
     \<longrightarrow> snd (add_full_record d table data) = d"
proof -
  show "isl (fst (get_record d table i cols)) \<longrightarrow> snd (get_record d table i cols) = d"
    by (simp add: get_record_db)
  show "isl (fst (list_table d table cols)) \<longrightarrow> snd (list_table d table cols) = d"
    by (simp add: list_table_db)
  show "isl (fst (add_record d table i nm q)) \<longrightarrow> snd (add_record d table i nm q) = d"
    by (cases "table \<in> set TABLES") (simp_all add: add_record_eq invalid_table_unchanged)
  show "isl (fst (update_full_record d table i data)) \<longrightarrow>
      snd (update_full_record d table i data) = d"
    by (cases "table \<in> set TABLES") (simp_all add: update_full_record_eq invalid_table_unchanged)
  show "isl (fst (delete_record d table i)) \<longrightarrow> snd (delete_record d table i) = d"
    by (cases "table \<in> set TABLES") (simp_all add: delete_record_eq invalid_table_unchanged)
  have ret: "(case dict_item data ''id'' of Inl e \<Rightarrow> Inl e | Inr v \<Rightarrow> py_int v)
      \<notin> {Inl InvalidTable, Inl IntegrityError, Inl OperationalError}"
    by (cases "data ''id''"; cases "dict_get data ''id''")
       (auto simp: dict_item_def dict_get_def split: option.splits)
  show "fst (add_full_record d table data)
        \<in> {Inl InvalidTable, Inl IntegrityError, Inl OperationalError}
      \<longrightarrow> snd (add_full_record d table data) = d"
  proof (cases "table \<in> set TABLES")
    case True
    with ret show ?thesis
      by (auto simp: add_full_record_eq Let_def split: sum.splits)
  next
    case False
    then show ?thesis by (simp add: invalid_table_unchanged)
  qed
qed

section \<open>Bindable and kept values\<close>

text \<open>A value that is stored as given can be bound.\<close>

lemma bindable_transfer_all:
  "bindable_on ALL_COLUMNS data \<Longrightarrow> bindable_on TRANSFER_COLUMNS data"
  by (auto simp: bindable_on_def list_all_iff cols_to_update [symmetric])

lemma kept_bindable: "kept c v \<Longrightarrow> bindable v"
  by (cases v) simp_all

lemma kept_all_bindable: "kept_all data \<Longrightarrow> bindable_on TRANSFER_COLUMNS data"
  by (auto simp: kept_all_def bindable_on_def list_all_iff intro: kept_bindable)

section \<open>The claims\<close>

subsection \<open>Stage transfers\<close>

text \<open>
  C1. A transfer that fails leaves the database as it found it. Whenever
  \<^verbatim>\<open>move_reserve_to_offering\<close> or \<^verbatim>\<open>move_offering_to_deal\<close> raises, all three
  tables are exactly as before the call: the source table keeps its rows and the
  destination table gets no new row. A storage failure at the INSERT, at the DELETE or at
  the commit, that is, anywhere after the source row was read, makes the call raise, and
  so does a source id without a row (\<^verbatim>\<open>ValueError\<close>, here \<open>NotFound\<close>).
\<close>

theorem transfer_atomic:
  "(isl (fst (move_reserve_to_offering f d i)) \<longrightarrow> snd (move_reserve_to_offering f d i) = d)
   \<and> (isl (fst (move_offering_to_deal f d i)) \<longrightarrow> snd (move_offering_to_deal f d i) = d)
   \<and> (f \<in> {Some Insert, Some Delete, Some Commit} \<longrightarrow>
        isl (fst (move_reserve_to_offering f d i)) \<and> isl (fst (move_offering_to_deal f d i)))
   \<and> (i \<notin> ids (reserve d) \<longrightarrow> isl (fst (move_reserve_to_offering f d i)))
   \<and> (i \<notin> ids (offering d) \<longrightarrow> isl (fst (move_offering_to_deal f d i)))
   \<and> (i \<notin> ids (reserve d) \<longrightarrow> move_reserve_to_offering None d i = (Inl NotFound, d))
   \<and> (i \<notin> ids (offering d) \<longrightarrow> move_offering_to_deal None d i = (Inl NotFound, d))"
proof -
  have absent: "i \<notin> ids t \<Longrightarrow> find (\<lambda>kr. fst kr = i) t = None" for t
    by (simp add: find_None_iff ids_def)
  have "isl (fst (move_reserve_to_offering f d i)) \<longrightarrow> snd (move_reserve_to_offering f d i) = d"
    by (simp add: move_reserve_to_offering_eq split: option.split)
  moreover have "isl (fst (move_offering_to_deal f d i)) \<longrightarrow> snd (move_offering_to_deal f d i) = d"
    by (simp add: move_offering_to_deal_eq split: option.split)
  moreover have "isl (fst (move_reserve_to_offering f d i)) \<and> isl (fst (move_offering_to_deal f d i))"
    if "f \<in> {Some Insert, Some Delete, Some Commit}"
    using that by (auto simp: move_reserve_to_offering_eq move_offering_to_deal_eq split: option.split)
  moreover have "isl (fst (move_reserve_to_offering f d i))"
    "move_reserve_to_offering None d i = (Inl NotFound, d)" if "i \<notin> ids (reserve d)"
    using absent [OF that] by (simp_all add: move_reserve_to_offering_eq)
  moreover have "isl (fst (move_offering_to_deal f d i))"
    "move_offering_to_deal None d i = (Inl NotFound, d)" if "i \<notin> ids (offering d)"
    using absent [OF that] by (simp_all add: move_offering_to_deal_eq)
  ultimately show ?thesis by blast
qed

text \<open>
  The theorem at work: a storage failure at the DELETE, after the row was copied into
  \<^verbatim>\<open>offering\<close> inside the transaction, a transfer of an id that has no row, and a
  failure of the commit of a transfer into \<^verbatim>\<open>deal\<close>.
\<close>

theorem transfer_atomic_witness:
  "isl (fst (move_reserve_to_offering (Some Delete) example_db 1))
   \<and> snd (move_reserve_to_offering (Some Delete) example_db 1) = example_db
   \<and> 1 \<in> ids (reserve example_db)
   \<and> 2 \<notin> ids (reserve example_db) \<and> 2 \<notin> ids (offering example_db)
   \<and> move_reserve_to_offering None example_db 2 = (Inl NotFound, example_db)
   \<and> move_offering_to_deal None example_db 2 = (Inl NotFound, example_db)
   \<and> 1 \<in> ids (offering crowded_db)
   \<and> isl (fst (move_offering_to_deal (Some Commit) crowded_db 1))
   \<and> snd (move_offering_to_deal (Some Commit) crowded_db 1) = crowded_db"
  using transfer_atomic [of "Some Delete" example_db 1] transfer_atomic [of None example_db 2]
    transfer_atomic [of "Some Commit" crowded_db 1]
  by (simp add: example_db_def crowded_db_def ids_def)

text \<open>
  C2. A successful transfer moves the row. If the source table holds row \<open>r\<close> under the
  given id and the transfer returns \<open>n\<close>, then afterwards the source table is the old one
  without the rows of that id, the destination table is the old one followed by the one
  new row \<open>(n, r)\<close>, whose 25 non-id fields are those of \<open>r\<close> (nulls included), the third
  table is as before, and \<open>n\<close>, the value returned, is the id of the new row and was not in
  use in the destination. Such a transfer does succeed whenever the row is there with a
  name that is not null and the storage does not fail.
\<close>

theorem transfer_moves_row:
  "(map_of (reserve d) i = Some r \<and> move_reserve_to_offering f d i = (Inr n, d') \<longrightarrow>
      reserve d' = filter (\<lambda>kr. fst kr \<noteq> i) (reserve d) \<and> i \<notin> ids (reserve d')
      \<and> offering d' = offering d @ [(n, r)] \<and> n \<notin> ids (offering d)
      \<and> deal d' = deal d)
   \<and> (map_of (offering d) i = Some r \<and> move_offering_to_deal f d i = (Inr n, d') \<longrightarrow>
      offering d' = filter (\<lambda>kr. fst kr \<noteq> i) (offering d) \<and> i \<notin> ids (offering d')
      \<and> deal d' = deal d @ [(n, r)] \<and> n \<notin> ids (deal d)
      \<and> reserve d' = reserve d)
   \<and> (map_of (reserve d) i = Some r \<and> name r \<noteq> Null \<longrightarrow>
        \<not> isl (fst (move_reserve_to_offering None d i)))
   \<and> (map_of (offering d) i = Some r \<and> name r \<noteq> Null \<longrightarrow>
        \<not> isl (fst (move_offering_to_deal None d i)))"
proof -
  have fresh: "next_rowid t \<notin> ids t" for t
    using next_rowid_fresh [of t] by (simp add: ids_def)
  have gone: "i \<notin> ids (filter (\<lambda>kr. fst kr \<noteq> i) t)" for t :: table
    by (auto simp: ids_def)
  have a: "reserve d' = filter (\<lambda>kr. fst kr \<noteq> i) (reserve d) \<and> i \<notin> ids (reserve d')
      \<and> offering d' = offering d @ [(n, r)] \<and> n \<notin> ids (offering d) \<and> deal d' = deal d"
    if row: "map_of (reserve d) i = Some r" and ok: "move_reserve_to_offering f d i = (Inr n, d')"
  proof -
    from row obtain k where found: "find (\<lambda>kr. fst kr = i) (reserve d) = Some (k, r)"
      using map_of_find by fastforce
    from ok have n: "n = next_rowid (offering d)"
      and d': "d' = \<lparr>reserve = filter (\<lambda>kr. fst kr \<noteq> i) (reserve d),
                      offering = offering d @ [(next_rowid (offering d), r)], deal = deal d\<rparr>"
      by (auto simp: move_reserve_to_offering_eq found split: if_splits)
    show ?thesis
      using fresh [of "offering d"] gone [of "reserve d"] by (simp add: n d')
  qed
  have b: "offering d' = filter (\<lambda>kr. fst kr \<noteq> i) (offering d) \<and> i \<notin> ids (offering d')
      \<and> deal d' = deal d @ [(n, r)] \<and> n \<notin> ids (deal d) \<and> reserve d' = reserve d"
    if row: "map_of (offering d) i = Some r" and ok: "move_offering_to_deal f d i = (Inr n, d')"
  proof -
    from row obtain k where found: "find (\<lambda>kr. fst kr = i) (offering d) = Some (k, r)"
      using map_of_find by fastforce
    from ok have n: "n = next_rowid (deal d)"
      and d': "d' = \<lparr>reserve = reserve d,
                      offering = filter (\<lambda>kr. fst kr \<noteq> i) (offering d),
                      deal = deal d @ [(next_rowid (deal d), r)]\<rparr>"
      by (auto simp: move_offering_to_deal_eq found split: if_splits)
    show ?thesis
      using fresh [of "deal d"] gone [of "offering d"] by (simp add: n d')
  qed
  have c: "\<not> isl (fst (move_reserve_to_offering None d i))"
    if row: "map_of (reserve d) i = Some r" and nm: "name r \<noteq> Null"
  proof -
    from row obtain k where found: "find (\<lambda>kr. fst kr = i) (reserve d) = Some (k, r)"
      using map_of_find by fastforce
    show ?thesis
      by (simp add: move_reserve_to_offering_eq found nm)
  qed
  have e: "\<not> isl (fst (move_offering_to_deal None d i))"
    if row: "map_of (offering d) i = Some r" and nm: "name r \<noteq> Null"
  proof -
    from row obtain k where found: "find (\<lambda>kr. fst kr = i) (offering d) = Some (k, r)"
      using map_of_find by fastforce
    show ?thesis
      by (simp add: move_offering_to_deal_eq found nm)
  qed
  show ?thesis
  proof (intro conjI impI)
    assume h: "map_of (reserve d) i = Some r \<and> move_reserve_to_offering f d i = (Inr n, d')"
    then show "reserve d' = filter (\<lambda>kr. fst kr \<noteq> i) (reserve d)" "i \<notin> ids (reserve d')"
      "offering d' = offering d @ [(n, r)]" "n \<notin> ids (offering d)" "deal d' = deal d"
      using a by blast+
  next
    assume h: "map_of (offering d) i = Some r \<and> move_offering_to_deal f d i = (Inr n, d')"
    then show "offering d' = filter (\<lambda>kr. fst kr \<noteq> i) (offering d)" "i \<notin> ids (offering d')"
      "deal d' = deal d @ [(n, r)]" "n \<notin> ids (deal d)" "reserve d' = reserve d"
      using b by blast+
  next
    assume "map_of (reserve d) i = Some r \<and> name r \<noteq> Null"
    then show "\<not> isl (fst (move_reserve_to_offering None d i))" using c by blast
  next
    assume "map_of (offering d) i = Some r \<and> name r \<noteq> Null"
    then show "\<not> isl (fst (move_offering_to_deal None d i))" using e by blast
  qed
qed

text \<open>The theorem on a database that has the same record under id 1 in all three tables.\<close>

theorem transfer_moves_row_witness:
  "map_of (reserve crowded_db) 1 = Some site_a \<and> name site_a \<noteq> Null
   \<and> move_reserve_to_offering None crowded_db 1 =
       (Inr 2, \<lparr>reserve = [], offering = [(1, site_a), (2, site_a)], deal = [(1, site_a)]\<rparr>)
   \<and> map_of (offering crowded_db) 1 = Some site_a
   \<and> move_offering_to_deal None crowded_db 1 =
       (Inr 2, \<lparr>reserve = [(1, site_a)], offering = [], deal = [(1, site_a), (2, site_a)]\<rparr>)
   \<and> 1 \<notin> ids (reserve (snd (move_reserve_to_offering None crowded_db 1)))
   \<and> 2 \<notin> ids (offering crowded_db)
   \<and> \<not> isl (fst (move_reserve_to_offering None crowded_db 1))"
  using transfer_moves_row [of crowded_db 1 site_a None 2
      "\<lparr>reserve = [], offering = [(1, site_a), (2, site_a)], deal = [(1, site_a)]\<rparr>"]
    move_crowded
  by (simp add: crowded_db_def example_rows ids_def)

text \<open>
  C3, as stated: the new id is never equal to the source id, also when the destination
  table is empty. It fails: moving row 1 of \<^verbatim>\<open>reserve\<close> into an empty
  \<^verbatim>\<open>offering\<close> stores it under id 1.
\<close>

theorem transfer_reuses_source_id: "fst (move_reserve_to_offering None example_db 1) = Inr 1"
  by (simp add: move_reserve_to_offering_eq example_db_def example_rows next_rowid_def)

text \<open>
  C3, amended. The id that a successful transfer returns is the id of a row of the
  destination table afterwards and was not the id of any row there before. So it differs
  from the source id whenever the destination table already holds a row with the source
  id; when it does not, the two may coincide, as above.
\<close>

theorem transfer_id_is_fresh:
  "(move_reserve_to_offering f d i = (Inr n, d') \<longrightarrow>
      n \<notin> ids (offering d) \<and> n \<in> ids (offering d') \<and> (i \<in> ids (offering d) \<longrightarrow> n \<noteq> i))
   \<and> (move_offering_to_deal f d i = (Inr n, d') \<longrightarrow>
      n \<notin> ids (deal d) \<and> n \<in> ids (deal d') \<and> (i \<in> ids (deal d) \<longrightarrow> n \<noteq> i))"
proof (intro conjI impI)
  have fresh: "next_rowid t \<notin> ids t" for t
    using next_rowid_fresh [of t] by (simp add: ids_def)
  {
    assume ok: "move_reserve_to_offering f d i = (Inr n, d')"
    then have n: "n = next_rowid (offering d)"
      by (simp add: move_reserve_to_offering_eq split: if_splits option.splits)
    from n fresh [of "offering d"] show "n \<notin> ids (offering d)" by simp
    then show "n \<noteq> i" if "i \<in> ids (offering d)" using that by blast
    from ok show "n \<in> ids (offering d')"
      by (auto simp: move_reserve_to_offering_eq ids_def split: if_splits option.splits)
  }
  {
    assume ok: "move_offering_to_deal f d i = (Inr n, d')"
    then have n: "n = next_rowid (deal d)"
      by (simp add: move_offering_to_deal_eq split: if_splits option.splits)
    from n fresh [of "deal d"] show "n \<notin> ids (deal d)" by simp
    then show "n \<noteq> i" if "i \<in> ids (deal d)" using that by blast
    from ok show "n \<in> ids (deal d')"
      by (auto simp: move_offering_to_deal_eq ids_def split: if_splits option.splits)
  }
qed

text \<open>With id 1 in use in \<^verbatim>\<open>offering\<close>, row 1 of \<^verbatim>\<open>reserve\<close> arrives as row 2.\<close>

theorem transfer_id_is_fresh_witness:
  "move_reserve_to_offering None crowded_db 1 =
       (Inr 2, \<lparr>reserve = [], offering = [(1, site_a), (2, site_a)], deal = [(1, site_a)]\<rparr>)
   \<and> 1 \<in> ids (offering crowded_db) \<and> 2 \<notin> ids (offering crowded_db)
   \<and> 2 \<in> ids (offering \<lparr>reserve = [], offering = [(1, site_a), (2, site_a)], deal = [(1, site_a)]\<rparr>)
   \<and> (2::int) \<noteq> 1"
  using transfer_id_is_fresh [of None crowded_db 1 2
      "\<lparr>reserve = [], offering = [(1, site_a), (2, site_a)], deal = [(1, site_a)]\<rparr>"]
    move_crowded
  by (simp add: crowded_db_def ids_def)

text \<open>
  C9. A transfer does not touch the third table: \<^verbatim>\<open>move_reserve_to_offering\<close> leaves
  \<^verbatim>\<open>deal\<close> as it is and \<^verbatim>\<open>move_offering_to_deal\<close> leaves \<^verbatim>\<open>reserve\<close> as it is,
  whether the call succeeds or fails.
\<close>

theorem transfer_frame:
  "deal (snd (move_reserve_to_offering f d i)) = deal d
   \<and> reserve (snd (move_offering_to_deal f d i)) = reserve d"
  by (simp add: move_reserve_to_offering_eq move_offering_to_deal_eq split: option.split)

text \<open>Both transfers on the database with a row in every table.\<close>

theorem transfer_frame_witness:
  "deal (snd (move_reserve_to_offering None crowded_db 1)) = [(1, site_a)]
   \<and> reserve (snd (move_offering_to_deal None crowded_db 1)) = [(1, site_a)]"
  using transfer_frame [of None crowded_db 1] by (simp add: crowded_db_def)

subsection \<open>The record store\<close>

text \<open>
  C6. Ids are unique per table, not across tables. For an id of 64 bits and values that
  can be bound: inserting, with \<^verbatim>\<open>add_record\<close> or \<^verbatim>\<open>add_full_record\<close>, a record
  whose id is already in use in that table raises \<^verbatim>\<open>sqlite3.IntegrityError\<close> (the
  uniqueness violation) and changes nothing. Inserting an id that is free in that table,
  with a name that is not null, succeeds whatever the other tables hold, returns the id,
  stores it in that table and leaves the other tables alone; so one id can be inserted
  into two tables.
\<close>

theorem duplicate_id_rejected_per_table:
  "table \<in> set TABLES \<Longrightarrow> int64 i \<Longrightarrow> bindable nm \<Longrightarrow> bindable q \<Longrightarrow>
   bindable_on ALL_COLUMNS data \<Longrightarrow>
     (i \<in> ids (tbl d table) \<longrightarrow>
        add_record d table i nm q = (Inl IntegrityError, d)
        \<and> (rowid_of (dict_get data ''id'') = Inr (Some i) \<longrightarrow>
             add_full_record d table data = (Inl IntegrityError, d)))
     \<and> (i \<notin> ids (tbl d table) \<and> nm \<noteq> Null \<longrightarrow>
          fst (add_record d table i nm q) = Inr i
          \<and> i \<in> ids (tbl (snd (add_record d table i nm q)) table)
          \<and> (\<forall>other \<in> set TABLES - {table}.
                tbl (snd (add_record d table i nm q)) other = tbl d other))
     \<and> (i \<notin> ids (tbl d table) \<and> rowid_of (dict_get data ''id'') = Inr (Some i)
          \<and> dict_get data ''name'' \<noteq> Null \<longrightarrow>
          fst (add_full_record d table data) = Inr i
          \<and> i \<in> ids (tbl (snd (add_full_record d table data)) table)
          \<and> (\<forall>other \<in> set TABLES - {table}.
                tbl (snd (add_full_record d table data)) other = tbl d other))"
proof (intro conjI impI ballI)
  assume t: "table \<in> set TABLES"
  {
    assume dup: "i \<in> ids (tbl d table)"
    show "add_record d table i nm q = (Inl IntegrityError, d)"
      using dup by (simp add: add_record_eq [OF t] ids_def del: set_map)
    show "add_full_record d table data = (Inl IntegrityError, d)"
      if "rowid_of (dict_get data ''id'') = Inr (Some i)"
      using dup that by (simp add: add_full_record_eq [OF t] ids_def del: set_map)
  }
  {
    assume h: "i \<notin> ids (tbl d table) \<and> nm \<noteq> Null"
    then have eq: "add_record d table i nm q =
        (Inr i, set_tbl d table
                  (tbl d table @ [(i, row_of ((\<lambda>c. Null)(''name'' := nm, ''quantity'' := q)))]))"
      by (simp add: add_record_eq [OF t] ids_def del: set_map)
    show "fst (add_record d table i nm q) = Inr i"
      by (simp add: eq)
    show "i \<in> ids (tbl (snd (add_record d table i nm q)) table)"
      by (simp add: eq tbl_set_tbl [OF t] ids_def)
    show "tbl (snd (add_record d table i nm q)) other = tbl d other"
      if "other \<in> set TABLES - {table}" for other
      using that by (simp add: eq tbl_set_tbl_other [OF t])
  }
  {
    assume h: "i \<notin> ids (tbl d table) \<and> rowid_of (dict_get data ''id'') = Inr (Some i)
          \<and> dict_get data ''name'' \<noteq> Null"
    have ret: "(case dict_item data ''id'' of Inl e \<Rightarrow> Inl e | Inr v \<Rightarrow> py_int v) = Inr i"
    proof (cases "data ''id''")
      case None
      with h show ?thesis by (simp add: dict_get_def)
    next
      case (Some v)
      with h show ?thesis
        by (cases v) (auto simp: dict_get_def dict_item_def split: option.splits)
    qed
    from h have eq: "add_full_record d table data =
        (Inr i, set_tbl d table (tbl d table @ [(i, row_of (dict_get data))]))"
      by (simp add: add_full_record_eq [OF t] ids_def ret del: set_map)
    show "fst (add_full_record d table data) = Inr i"
      by (simp add: eq)
    show "i \<in> ids (tbl (snd (add_full_record d table data)) table)"
      by (simp add: eq tbl_set_tbl [OF t] ids_def)
    show "tbl (snd (add_full_record d table data)) other = tbl d other"
      if "other \<in> set TABLES - {table}" for other
      using that by (simp add: eq tbl_set_tbl_other [OF t])
  }
qed

text \<open>
  Id 1 is in use in \<^verbatim>\<open>reserve\<close> and free in \<^verbatim>\<open>offering\<close>: inserting it again into
  \<^verbatim>\<open>reserve\<close> is rejected, inserting it into \<^verbatim>\<open>offering\<close> succeeds, and it is then
  held by both tables.
\<close>

theorem duplicate_id_rejected_per_table_witness:
  "''reserve'' \<in> set TABLES \<and> ''offering'' \<in> set TABLES \<and> int64 1
   \<and> bindable (TextV ''Site B'') \<and> bindable Null
   \<and> bindable_on ALL_COLUMNS [''id'' \<mapsto> TextV ''1'', ''name'' \<mapsto> TextV ''Site B'']
   \<and> 1 \<in> ids (tbl example_db ''reserve'') \<and> 1 \<notin> ids (tbl example_db ''offering'')
   \<and> rowid_of (dict_get [''id'' \<mapsto> TextV ''1'', ''name'' \<mapsto> TextV ''Site B''] ''id'') = Inr (Some 1)
   \<and> add_record example_db ''reserve'' 1 (TextV ''Site B'') Null = (Inl IntegrityError, example_db)
   \<and> add_full_record example_db ''reserve'' [''id'' \<mapsto> TextV ''1'', ''name'' \<mapsto> TextV ''Site B'']
       = (Inl IntegrityError, example_db)
   \<and> fst (add_record example_db ''offering'' 1 (TextV ''Site B'') Null) = Inr 1
   \<and> 1 \<in> ids (tbl (snd (add_record example_db ''offering'' 1 (TextV ''Site B'') Null)) ''offering'')
   \<and> 1 \<in> ids (tbl (snd (add_record example_db ''offering'' 1 (TextV ''Site B'') Null)) ''reserve'')
   \<and> fst (add_full_record example_db ''offering'' [''id'' \<mapsto> TextV ''1'', ''name'' \<mapsto> TextV ''Site B''])
       = Inr 1"
proof -
  let ?data = "[''id'' \<mapsto> TextV ''1'', ''name'' \<mapsto> TextV ''Site B'']"
  have r: "''reserve'' \<in> set TABLES" and o: "''offering'' \<in> set TABLES"
    and ro: "''reserve'' \<in> set TABLES - {''offering''}"
    by (simp_all add: TABLES_def)
  have i: "int64 1"
    by (simp add: int64_def)
  have b: "bindable (TextV ''Site B'')" "bindable Null" "bindable_on ALL_COLUMNS ?data"
    by (simp_all add: bindable_on_def ALL_COLUMNS_def dict_get_def)
  have used: "1 \<in> ids (tbl example_db ''reserve'')"
    and free: "1 \<notin> ids (tbl example_db ''offering'')"
    by (simp_all add: ids_def tbl_def example_db_def)
  have rid: "rowid_of (dict_get ?data ''id'') = Inr (Some 1)"
    by (simp add: dict_get_def int_literal_def decimal_def digit_def digit_value_def)
  have nm: "TextV ''Site B'' \<noteq> Null" "dict_get ?data ''name'' \<noteq> Null"
    by (simp_all add: dict_get_def)
  note in_reserve = duplicate_id_rejected_per_table [OF r i b, of example_db]
  note in_offering = duplicate_id_rejected_per_table [OF o i b, of example_db]
  from in_reserve used rid
  have "add_record example_db ''reserve'' 1 (TextV ''Site B'') Null = (Inl IntegrityError, example_db)"
    "add_full_record example_db ''reserve'' ?data = (Inl IntegrityError, example_db)"
    by blast+
  moreover from in_offering free nm rid
  have "fst (add_record example_db ''offering'' 1 (TextV ''Site B'') Null) = Inr 1"
    "1 \<in> ids (tbl (snd (add_record example_db ''offering'' 1 (TextV ''Site B'') Null)) ''offering'')"
    "fst (add_full_record example_db ''offering'' ?data) = Inr 1"
    by blast+
  moreover from in_offering free nm ro
  have "tbl (snd (add_record example_db ''offering'' 1 (TextV ''Site B'') Null)) ''reserve''
      = tbl example_db ''reserve''"
    by blast
  with used
  have "1 \<in> ids (tbl (snd (add_record example_db ''offering'' 1 (TextV ''Site B'') Null)) ''reserve'')"
    by simp
  ultimately show ?thesis
    using r o i b used free rid by simp
qed




text \<open>
  C8. For an id of 64 bits that has no row in the table, \<^verbatim>\<open>delete_record\<close> and, with
  values that can be bound, \<^verbatim>\<open>update_full_record\<close> return 0, do not raise, and leave
  all three tables unchanged.
\<close>

theorem absent_id_affects_nothing:
  "table \<in> set TABLES \<Longrightarrow> int64 i \<Longrightarrow> i \<notin> ids (tbl d table) \<Longrightarrow>
     delete_record d table i = (Inr 0, d)
     \<and> (bindable_on TRANSFER_COLUMNS data \<longrightarrow> update_full_record d table i data = (Inr 0, d))"
  by (simp add: delete_record_eq update_full_record_eq ids_def filter_absent map_absent set_tbl_same
        del: set_map)

text \<open>Deleting and updating id 2 where only id 1 exists.\<close>

theorem absent_id_affects_nothing_witness:
  "''reserve'' \<in> set TABLES \<and> int64 2 \<and> 2 \<notin> ids (tbl example_db ''reserve'')
   \<and> bindable_on TRANSFER_COLUMNS [''area'' \<mapsto> IntV 7]
   \<and> delete_record example_db ''reserve'' 2 = (Inr 0, example_db)
   \<and> update_full_record example_db ''reserve'' 2 [''area'' \<mapsto> IntV 7] = (Inr 0, example_db)"
  using absent_id_affects_nothing [of "''reserve''" 2 example_db "[''area'' \<mapsto> IntV 7]"]
  by (simp add: TABLES_def ids_def tbl_def example_db_def int64_def bindable_on_def
        TRANSFER_COLUMNS_def dict_get_def)

text \<open>
  C4, evaluated where it fails. The claim: whenever \<^verbatim>\<open>add_full_record\<close> raises, the
  table is unchanged, also for a dict without the key \<^verbatim>\<open>id\<close>. For such a dict the
  INSERT binds NULL as id, SQLite assigns the rowid, the row is committed, and only then
  \<^verbatim>\<open>data["id"]\<close> raises \<^verbatim>\<open>KeyError\<close>: the call reports an error and the row is in
  the table.
\<close>

theorem add_full_record_commits_then_raises:
  "add_full_record (init_db None) ''reserve'' [''name'' \<mapsto> TextV ''Site A''] =
     (Inl KeyError,
      \<lparr>reserve = [(1, row_of (dict_get [''name'' \<mapsto> TextV ''Site A'']))],
       offering = [], deal = []\<rparr>)
   \<and> name (row_of (dict_get [''name'' \<mapsto> TextV ''Site A''])) = TextV ''Site A''"
  by (simp add: add_full_record_eq tables_mem tbl_simps set_tbl_simps init_db_def dict_get_def
        dict_item_def next_rowid_def name_row_of)

text \<open>
  C5, evaluated where it fails. \<^verbatim>\<open>list_table\<close> does return the rows of the table in
  ascending order of id. But the column list it uses when the caller gives none is not a
  summary subset: it is the full list of 26 columns, the same as \<^verbatim>\<open>ALL_COLUMNS\<close>
  (the docstring promises \<^verbatim>\<open>id, name, quantity\<close>).
\<close>

theorem list_table_default_is_all_columns:
  "LIST_TABLE_DEFAULT = ALL_COLUMNS \<and> length LIST_TABLE_DEFAULT = 26
   \<and> list_table d ''reserve'' None =
       (Inr (map (\<lambda>kr. map (column_value kr) ALL_COLUMNS) (sort_key fst (reserve d))), d)
   \<and> list_table d ''offering'' None =
       (Inr (map (\<lambda>kr. map (column_value kr) ALL_COLUMNS) (sort_key fst (offering d))), d)
   \<and> list_table d ''deal'' None =
       (Inr (map (\<lambda>kr. map (column_value kr) ALL_COLUMNS) (sort_key fst (deal d))), d)
   \<and> sorted (map fst (sort_key fst (t :: table))) \<and> mset (sort_key fst t) = mset t
   \<and> fst (list_table example_db ''reserve'' None) = Inr [map (column_value (1, site_a)) ALL_COLUMNS]
   \<and> length (map (column_value (1, site_a)) ALL_COLUMNS) = 26"
proof -
  have eq: "LIST_TABLE_DEFAULT = ALL_COLUMNS"
    by (simp add: LIST_TABLE_DEFAULT_def ALL_COLUMNS_def)
  have len: "length ALL_COLUMNS = 26"
    by (simp add: ALL_COLUMNS_def)
  have l: "list_table d table None =
      (Inr (map (\<lambda>kr. map (column_value kr) ALL_COLUMNS) (sort_key fst (tbl d table))), d)"
    if "table \<in> set TABLES" for d table
    using that by (simp add: list_table_eq eq known_all)
  show ?thesis
    using l [of "''reserve''" d] l [of "''offering''" d] l [of "''deal''" d]
      l [of "''reserve''" example_db]
    by (simp add: eq len tables_mem tbl_simps example_db_def)
qed

subsection \<open>The schema's constraint on names\<close>

text \<open>
  C10. In every state reached from a fresh database by calls of the operations, every row
  of every table has a name that is not null. An insert with a null name
  (\<^verbatim>\<open>add_full_record\<close>, \<^verbatim>\<open>add_record\<close>) and an update that would give an existing
  row a null name raise \<^verbatim>\<open>sqlite3.IntegrityError\<close> and leave the database unchanged,
  and a successful transfer stores the source row, whose name is not null, unchanged in
  the destination.
\<close>

theorem names_never_null:
  "names_not_null (run calls)
   \<and> (table \<in> set TABLES \<longrightarrow>
        (dict_get data ''name'' = Null \<longrightarrow>
           add_full_record d table data = (Inl IntegrityError, d))
        \<and> add_record d table i Null q = (Inl IntegrityError, d)
        \<and> (dict_get data ''name'' = Null \<and> i \<in> ids (tbl d table) \<longrightarrow>
             update_full_record d table i data = (Inl IntegrityError, d)))
   \<and> (move_reserve_to_offering f d i = (Inr n, d') \<longrightarrow>
        (\<exists>r. map_of (reserve d) i = Some r \<and> name r \<noteq> Null \<and> offering d' = offering d @ [(n, r)]))
   \<and> (move_offering_to_deal f d i = (Inr n, d') \<longrightarrow>
        (\<exists>r. map_of (offering d) i = Some r \<and> name r \<noteq> Null \<and> deal d' = deal d @ [(n, r)]))"
proof (intro conjI impI)
  show "names_not_null (run calls)"
    using run_inv by blast
next
  assume t: "table \<in> set TABLES"
  show "add_record d table i Null q = (Inl IntegrityError, d)"
    by (simp add: add_record_eq [OF t])
  show "add_full_record d table data = (Inl IntegrityError, d)" if "dict_get data ''name'' = Null"
    using that by (auto simp: add_full_record_eq [OF t] split: sum.split dest: rowid_of_error)
  show "update_full_record d table i data = (Inl IntegrityError, d)"
    if "dict_get data ''name'' = Null \<and> i \<in> ids (tbl d table)"
    using that by (simp add: update_full_record_eq [OF t] ids_def del: set_map)
next
  assume ok: "move_reserve_to_offering f d i = (Inr n, d')"
  then obtain kr where found: "find (\<lambda>kr. fst kr = i) (reserve d) = Some kr"
    by (auto simp: move_reserve_to_offering_eq split: if_splits option.splits)
  with ok have "name (snd kr) \<noteq> Null" "offering d' = offering d @ [(n, snd kr)]"
    by (auto simp: move_reserve_to_offering_eq split: if_splits)
  with find_Some_map_of [OF found]
  show "\<exists>r. map_of (reserve d) i = Some r \<and> name r \<noteq> Null \<and> offering d' = offering d @ [(n, r)]"
    by blast
next
  assume ok: "move_offering_to_deal f d i = (Inr n, d')"
  then obtain kr where found: "find (\<lambda>kr. fst kr = i) (offering d) = Some kr"
    by (auto simp: move_offering_to_deal_eq split: if_splits option.splits)
  with ok have "name (snd kr) \<noteq> Null" "deal d' = deal d @ [(n, snd kr)]"
    by (auto simp: move_offering_to_deal_eq split: if_splits)
  with find_Some_map_of [OF found]
  show "\<exists>r. map_of (offering d) i = Some r \<and> name r \<noteq> Null \<and> deal d' = deal d @ [(n, r)]"
    by blast
qed

text \<open>
  The example sequence of calls ends with the one accepted record in \<^verbatim>\<open>offering\<close>;
  the rejected calls, and the transfer, on the example database.
\<close>

theorem names_never_null_witness:
  "run example_calls =
     \<lparr>reserve = [],
      offering = [(1, row_of ((\<lambda>c. Null)(''name'' := TextV ''Site A'', ''quantity'' := Null)))],
      deal = []\<rparr>
   \<and> names_not_null (run example_calls)
   \<and> ''reserve'' \<in> set TABLES \<and> dict_get [''id'' \<mapsto> IntV 2] ''name'' = Null
   \<and> 1 \<in> ids (tbl example_db ''reserve'')
   \<and> add_full_record example_db ''reserve'' [''id'' \<mapsto> IntV 2] = (Inl IntegrityError, example_db)
   \<and> add_record example_db ''reserve'' 2 Null Null = (Inl IntegrityError, example_db)
   \<and> update_full_record example_db ''reserve'' 1 [''id'' \<mapsto> IntV 2] = (Inl IntegrityError, example_db)
   \<and> move_reserve_to_offering None example_db 1 =
       (Inr 1, \<lparr>reserve = [], offering = [(1, site_a)], deal = []\<rparr>)
   \<and> map_of (reserve example_db) 1 = Some site_a \<and> name site_a \<noteq> Null"
  using names_never_null [where calls = example_calls and table = "''reserve''"
      and data = "[''id'' \<mapsto> IntV 2]" and d = example_db and i = 1 and q = Null and f = None
      and n = 1 and d' = "\<lparr>reserve = [], offering = [(1, site_a)], deal = []\<rparr>"]
    names_never_null [where calls = example_calls and table = "''reserve''"
      and data = "[''id'' \<mapsto> IntV 2]" and d = example_db and i = 2 and q = Null and f = None
      and n = 1 and d' = "\<lparr>reserve = [], offering = [(1, site_a)], deal = []\<rparr>"]
    run_example move_example
  by (simp add: TABLES_def dict_get_def ids_def tbl_def example_db_def example_rows)

end
